theory Spec2Isabelle
  imports Main
begin

section \<open>JavaScript values\<close>

text \<open>
  Every frame on either WebSocket is decoded with \<^verbatim>\<open>JSON.parse\<close>. A decoded value is a
  \<open>json\<close>; a JavaScript value that may also be \<^verbatim>\<open>undefined\<close> is a \<open>json option\<close>
  (\<open>None\<close> is \<^verbatim>\<open>undefined\<close>). Numbers are kept as integers: the handlers only ever test
  a number for truthiness.
\<close>

datatype json =
    JNull
  | JBool bool
  | JNum int
  | JStr string
  | JArr "json list"
  | JObj "(string \<times> json) list"

type_synonym jsval = "json option"

datatype js_error = SyntaxError | TypeError

text \<open>
  \<^verbatim>\<open>v.k\<close>: reading a property of \<^verbatim>\<open>undefined\<close> or \<^verbatim>\<open>null\<close> throws a TypeError; an object
  yields the member (the last one of that name, as \<^verbatim>\<open>JSON.parse\<close> keeps it) or
  \<^verbatim>\<open>undefined\<close>; for the property names the handlers read (\<^verbatim>\<open>event\<close>, \<^verbatim>\<open>start\<close>,
  \<^verbatim>\<open>streamSid\<close>, \<^verbatim>\<open>media\<close>, \<^verbatim>\<open>payload\<close>, \<^verbatim>\<open>type\<close>, \<^verbatim>\<open>audio_event\<close>, \<^verbatim>\<open>audio_base_64\<close>,
  \<^verbatim>\<open>ping_event\<close>, \<^verbatim>\<open>event_id\<close>) a boolean, number, string or array yields \<^verbatim>\<open>undefined\<close>.
\<close>

fun get_prop :: "jsval \<Rightarrow> string \<Rightarrow> js_error + jsval" where
  "get_prop None k = Inl TypeError"
| "get_prop (Some JNull) k = Inl TypeError"
| "get_prop (Some (JObj kvs)) k = Inr (map_of (rev kvs) k)"
| "get_prop (Some v) k = Inr None"

text \<open>\<^verbatim>\<open>v?.k\<close>: \<^verbatim>\<open>undefined\<close> when \<^verbatim>\<open>v\<close> is \<^verbatim>\<open>undefined\<close> or \<^verbatim>\<open>null\<close>, else \<^verbatim>\<open>v.k\<close>.\<close>

fun opt_chain :: "jsval \<Rightarrow> string \<Rightarrow> js_error + jsval" where
  "opt_chain None k = Inr None"
| "opt_chain (Some JNull) k = Inr None"
| "opt_chain (Some v) k = get_prop (Some v) k"

text \<open>The truth value of a JavaScript value in a condition.\<close>

fun truthy :: "jsval \<Rightarrow> bool" where
  "truthy None = False"
| "truthy (Some JNull) = False"
| "truthy (Some (JBool b)) = b"
| "truthy (Some (JNum n)) = (n \<noteq> 0)"
| "truthy (Some (JStr s)) = (s \<noteq> [])"
| "truthy (Some (JArr xs)) = True"
| "truthy (Some (JObj kvs)) = True"

text \<open>
  An object literal handed to \<^verbatim>\<open>JSON.stringify\<close>: members whose value is \<^verbatim>\<open>undefined\<close>
  are left out of the text, the others appear in the literal's order. A frame that is
  sent is recorded as this value.
\<close>

definition js_object :: "(string \<times> jsval) list \<Rightarrow> json" where
  "js_object kvs = JObj (List.map_filter (\<lambda>(k, v). map_option (\<lambda>j. (k, j)) v) kvs)"

text \<open>Sequencing of statements that may throw.\<close>

fun bind_err :: "js_error + 'a \<Rightarrow> ('a \<Rightarrow> js_error + 'b) \<Rightarrow> js_error + 'b" where
  "bind_err (Inl e) f = Inl e"
| "bind_err (Inr x) f = f x"

text \<open>\<^verbatim>\<open>try { body } catch (error) { handler }\<close>.\<close>

fun try_catch :: "js_error + 'a \<Rightarrow> (js_error \<Rightarrow> js_error + 'a) \<Rightarrow> js_error + 'a" where
  "try_catch (Inl e) h = h e"
| "try_catch (Inr x) h = Inr x"

section \<open>Request fields\<close>

text \<open>
  A field of the request body is a string or absent (\<^verbatim>\<open>undefined\<close>): \<open>string option\<close>.
  An absent body (\<^verbatim>\<open>request.body || {}\<close>) has every field absent.
\<close>

definition truthy_str :: "string option \<Rightarrow> bool" where
  "truthy_str v = (case v of None \<Rightarrow> False | Some s \<Rightarrow> s \<noteq> [])"

text \<open>A field inside a template literal.\<close>

definition to_str :: "string option \<Rightarrow> string" where
  "to_str v = (case v of None \<Rightarrow> ''undefined'' | Some s \<Rightarrow> s)"

text \<open>\<^verbatim>\<open>s.startsWith(p)\<close>.\<close>

definition startsWith :: "string \<Rightarrow> string \<Rightarrow> bool" where
  "startsWith s p = (take (length p) s = p)"

record request_body =
  req_twilioAccountSid :: "string option"
  req_twilioAuthToken :: "string option"
  req_twilioPhoneNumber :: "string option"
  req_elevenLabsApiKey :: "string option"
  req_elevenLabsAgentId :: "string option"
  req_zoomDialIn :: "string option"
  req_meetingId :: "string option"
  req_passcode :: "string option"
  req_serverUrl :: "string option"

section \<open>Session store and timers\<close>

record session =
  twilioAccountSid :: "string option"
  twilioAuthToken :: "string option"
  elevenLabsApiKey :: "string option"
  elevenLabsAgentId :: "string option"
  serverUrl :: "string option"

text \<open>
  The process state: \<^verbatim>\<open>sessionStore\<close> and the one-shot timers that \<^verbatim>\<open>setTimeout\<close> has
  registered and that have not fired yet, each with its due time in milliseconds and the
  session id its callback deletes.
\<close>

record server =
  sessionStore :: "string \<rightharpoonup> session"
  timers :: "(nat \<times> string) list"

record call_params =
  cp_url :: string
  cp_to :: "string option"
  cp_from :: "string option"
  cp_sendDigits :: string

record twilio_error =
  err_message :: string
  err_code :: "int option"
  err_moreInfo :: "string option"

text \<open>
  The telephony provider's client library, as the handler sees it: the constructor may
  throw, and \<^verbatim>\<open>calls.create\<close> resolves to the call's \<^verbatim>\<open>sid\<close> or rejects.
\<close>

record provider =
  twilio_new :: "string option \<Rightarrow> string option \<Rightarrow> twilio_error option"
  calls_create :: "call_params \<Rightarrow> twilio_error + string"

text \<open>What a handler does to the world, in program order.\<close>

datatype effect =
    StoreSet string session
  | SetTimeoutDelete string nat
  | TwilioNew "string option" "string option"
  | CallsCreate call_params
  | LogInfo string
  | LogError string
  | ElevenLabsConnect string "string option"
  | ElevenLabsSend json
  | ElevenLabsWsClose
  | TwilioSend json
  | TwilioSocketClose

datatype reply =
    Reply400 string
  | Reply200Call string string
  | Reply500 string string "int option" "string option"
  | Reply404 string
  | ReplyTwiml string

section \<open>POST /initiate-call\<close>

text \<open>Lines 50-53: the callback base address.\<close>

definition normalize_serverUrl :: "string option \<Rightarrow> string option" where
  "normalize_serverUrl u =
     (if truthy_str u \<and> \<not> startsWith (to_str u) ''http''
      then Some (''https://'' @ to_str u) else u)"

text \<open>Lines 77-86: the DTMF string.\<close>

definition sendDigits :: "string option \<Rightarrow> string option \<Rightarrow> string" where
  "sendDigits meetingId passcode =
     (let d = ''wwww'' in
      if truthy_str meetingId then
        (let d = d @ to_str meetingId @ ''#'' in
         if truthy_str passcode then d @ ''wwww'' @ to_str passcode @ ''#''
         else d @ ''wwww#'')
      else d)"

definition required_present :: "string option \<Rightarrow> request_body \<Rightarrow> bool" where
  "required_present url body =
     (truthy_str url \<and> truthy_str (req_twilioAccountSid body) \<and>
      truthy_str (req_twilioAuthToken body) \<and> truthy_str (req_twilioPhoneNumber body) \<and>
      truthy_str (req_elevenLabsApiKey body) \<and> truthy_str (req_elevenLabsAgentId body) \<and>
      truthy_str (req_zoomDialIn body))"

definition new_session :: "string option \<Rightarrow> request_body \<Rightarrow> session" where
  "new_session url body =
     \<lparr> twilioAccountSid = req_twilioAccountSid body,
       twilioAuthToken = req_twilioAuthToken body,
       elevenLabsApiKey = req_elevenLabsApiKey body,
       elevenLabsAgentId = req_elevenLabsAgentId body,
       serverUrl = url \<rparr>"

definition new_call_params :: "string option \<Rightarrow> string \<Rightarrow> request_body \<Rightarrow> call_params" where
  "new_call_params url sessionId body =
     \<lparr> cp_url = to_str url @ ''/call/twiml?sessionId='' @ sessionId,
       cp_to = req_zoomDialIn body,
       cp_from = req_twilioPhoneNumber body,
       cp_sendDigits = sendDigits (req_meetingId body) (req_passcode body) \<rparr>"

definition reply500 :: "twilio_error \<Rightarrow> reply" where
  "reply500 e = Reply500 ''Failed to initiate call'' (err_message e) (err_code e) (err_moreInfo e)"

text \<open>
  The handler, given the provider, the clock when it runs (\<open>now\<close>), and the value
  \<^verbatim>\<open>uuidv4()\<close> returns (\<open>sessionId\<close>). It returns the reply, the new process state and
  the effects in program order.
\<close>

definition initiate_call ::
  "provider \<Rightarrow> nat \<Rightarrow> string \<Rightarrow> request_body \<Rightarrow> server \<Rightarrow> reply \<times> server \<times> effect list" where
  "initiate_call p now sessionId body srv =
     (let url = normalize_serverUrl (req_serverUrl body) in
      if \<not> required_present url body
      then (Reply400 ''All fields (except Meeting ID/Passcode) are required'', srv, [])
      else
        (let s = new_session url body;
             srv' = srv\<lparr> sessionStore := (sessionStore srv)(sessionId \<mapsto> s),
                        timers := timers srv @ [(now + 3600000, sessionId)] \<rparr>;
             pre = [StoreSet sessionId s, SetTimeoutDelete sessionId 3600000,
                    TwilioNew (req_twilioAccountSid body) (req_twilioAuthToken body)]
         in case twilio_new p (req_twilioAccountSid body) (req_twilioAuthToken body) of
              Some e \<Rightarrow> (reply500 e, srv', pre @ [LogError (err_message e)])
            | None \<Rightarrow>
               (let cp = new_call_params url sessionId body in
                case calls_create p cp of
                  Inl e \<Rightarrow> (reply500 e, srv', pre @ [CallsCreate cp, LogError (err_message e)])
                | Inr callSid \<Rightarrow>
                    (Reply200Call callSid sessionId, srv',
                     pre @ [CallsCreate cp, LogInfo ''Call initiated'']))))"

text \<open>
  The event loop runs the callbacks of the timers that are due at time \<open>t\<close>: each deletes
  its session id from the store, and a timer that has fired is gone.
\<close>

definition run_timers :: "nat \<Rightarrow> server \<Rightarrow> server" where
  "run_timers t srv =
     \<lparr> sessionStore = (\<lambda>k. if k \<in> snd ` set (filter (\<lambda>(due, k). due \<le> t) (timers srv))
                               then None else sessionStore srv k),
       timers = filter (\<lambda>(due, k). \<not> due \<le> t) (timers srv) \<rparr>"

section \<open>POST /call/twiml\<close>

text \<open>\<^verbatim>\<open>s.replace(/^https/, 'wss')\<close>.\<close>

definition replace_https_wss :: "string \<Rightarrow> string" where
  "replace_https_wss s = (if startsWith s ''https'' then ''wss'' @ drop 5 s else s)"

definition call_twiml :: "string option \<Rightarrow> server \<Rightarrow> reply \<times> server \<times> effect list" where
  "call_twiml sessionId srv =
     (case (case sessionId of None \<Rightarrow> None | Some k \<Rightarrow> sessionStore srv k) of
        None \<Rightarrow> (Reply404 ''Session not found'', srv, [LogError ''Session not found for TwiML''])
      | Some s \<Rightarrow>
          (ReplyTwiml (replace_https_wss (to_str (serverUrl s)) @
                         ''/media-stream?sessionId='' @ to_str sessionId), srv, []))"

section \<open>GET /media-stream: the bridge\<close>

text \<open>The \<^verbatim>\<open>readyState\<close> of a WebSocket of the \<^verbatim>\<open>ws\<close> library.\<close>

datatype ready_state = CONNECTING | OPEN | CLOSING | CLOSED

text \<open>
  The variables one upgrade closes over (\<^verbatim>\<open>streamSid\<close>, \<^verbatim>\<open>isElevenLabsConnected\<close>) and
  the \<^verbatim>\<open>readyState\<close> of its two sockets: \<^verbatim>\<open>elevenLabsWs\<close> and \<^verbatim>\<open>connection.socket\<close>.
\<close>

record bridge =
  streamSid :: jsval
  isElevenLabsConnected :: bool
  elevenLabsReady :: ready_state
  twilioReady :: ready_state

text \<open>
  The upgrade handler up to the registration of the event handlers (lines 176-205).
  \<^verbatim>\<open>url.searchParams.get('sessionId')\<close> is \<^verbatim>\<open>null\<close> when the parameter is absent, and the
  store has no such key. Without a session the socket is closed and no bridge exists;
  with one, the agent socket is created and is connecting.
\<close>

definition initial_bridge :: bridge where
  "initial_bridge =
     \<lparr> streamSid = Some JNull, isElevenLabsConnected = False,
       elevenLabsReady = CONNECTING, twilioReady = OPEN \<rparr>"

definition media_stream :: "string option \<Rightarrow> server \<Rightarrow> bridge option \<times> server \<times> effect list" where
  "media_stream sessionId srv =
     (case (case sessionId of None \<Rightarrow> None | Some k \<Rightarrow> sessionStore srv k) of
        None \<Rightarrow>
          (None, srv,
           [LogInfo ''WebSocket connection attempt with sessionId'',
            LogError ''Session not found for WebSocket'',
            TwilioSocketClose])
      | Some s \<Rightarrow>
          (Some initial_bridge, srv,
           [LogInfo ''WebSocket connection attempt with sessionId'',
            LogInfo ''Twilio media stream connected'',
            ElevenLabsConnect
              (''wss://api.elevenlabs.io/v1/convai/conversation?agent_id='' @
                 to_str (elevenLabsAgentId s))
              (elevenLabsApiKey s)]))"

text \<open>Lines 271-296. The function only sends; it returns the effects or throws.\<close>

definition handleElevenLabsMessage :: "json \<Rightarrow> jsval \<Rightarrow> js_error + effect list" where
  "handleElevenLabsMessage message sid =
     bind_err (get_prop (Some message) ''type'') (\<lambda>t.
       if t = Some (JStr ''conversation_initiation_metadata'') then
         Inr [LogInfo ''ElevenLabs conversation initiated'']
       else if t = Some (JStr ''audio'') then
         bind_err (get_prop (Some message) ''audio_event'') (\<lambda>ev.
         bind_err (opt_chain ev ''audio_base_64'') (\<lambda>a.
           if truthy a then
             bind_err (get_prop (Some message) ''audio_event'') (\<lambda>ev'.
             bind_err (get_prop ev' ''audio_base_64'') (\<lambda>payload.
               Inr [TwilioSend (js_object
                      [(''event'', Some (JStr ''media'')),
                       (''streamSid'', sid),
                       (''media'', Some (js_object [(''payload'', payload)]))])]))
           else Inr []))
       else if t = Some (JStr ''ping'') then
         bind_err (get_prop (Some message) ''ping_event'') (\<lambda>ev.
         bind_err (opt_chain ev ''event_id'') (\<lambda>i. Inr []))
       else Inr [])"

text \<open>
  The handlers. Each takes the bridge as it is when the handler starts and returns the
  bridge and the effects, or the exception that leaves the handler. The argument of a
  message handler is what \<^verbatim>\<open>JSON.parse\<close> makes of the frame: \<open>None\<close> when it throws a
  SyntaxError.
\<close>

definition parse_frame :: "json option \<Rightarrow> js_error + json" where
  "parse_frame frame = (case frame of None \<Rightarrow> Inl SyntaxError | Some j \<Rightarrow> Inr j)"

definition on_elevenLabs_open :: "bridge \<Rightarrow> js_error + bridge \<times> effect list" where
  "on_elevenLabs_open b =
     Inr (b\<lparr> isElevenLabsConnected := True \<rparr>, [LogInfo ''Connected to ElevenLabs''])"

definition on_elevenLabs_message :: "bridge \<Rightarrow> json option \<Rightarrow> js_error + bridge \<times> effect list" where
  "on_elevenLabs_message b frame =
     try_catch
       (bind_err (parse_frame frame) (\<lambda>message.
        bind_err (handleElevenLabsMessage message (streamSid b)) (\<lambda>effs.
          Inr (b, effs))))
       (\<lambda>error. Inr (b, [LogError ''Error parsing ElevenLabs message:'']))"

definition on_elevenLabs_error :: "bridge \<Rightarrow> js_error + bridge \<times> effect list" where
  "on_elevenLabs_error b = Inr (b, [LogError ''ElevenLabs WebSocket error:''])"

definition on_elevenLabs_close :: "bridge \<Rightarrow> js_error + bridge \<times> effect list" where
  "on_elevenLabs_close b =
     Inr (b\<lparr> isElevenLabsConnected := False \<rparr>, [LogInfo ''ElevenLabs disconnected.''])"

text \<open>
  \<^verbatim>\<open>elevenLabsWs.close()\<close> on an open socket starts the closing handshake: the socket is
  \<open>CLOSING\<close> from then on.
\<close>

definition on_twilio_message :: "bridge \<Rightarrow> json option \<Rightarrow> js_error + bridge \<times> effect list" where
  "on_twilio_message b frame =
     try_catch
       (bind_err (parse_frame frame) (\<lambda>data.
        bind_err (get_prop (Some data) ''event'') (\<lambda>ev.
          if ev = Some (JStr ''start'') then
            bind_err (get_prop (Some data) ''start'') (\<lambda>st.
            bind_err (get_prop st ''streamSid'') (\<lambda>sid.
              Inr (b\<lparr> streamSid := sid \<rparr>, [LogInfo ''Stream started''])))
          else if ev = Some (JStr ''media'') then
            (if isElevenLabsConnected b \<and> elevenLabsReady b = OPEN then
               bind_err (get_prop (Some data) ''media'') (\<lambda>m.
               bind_err (get_prop m ''payload'') (\<lambda>payload.
                 Inr (b, [ElevenLabsSend (js_object [(''user_audio_chunk'', payload)])])))
             else Inr (b, []))
          else if ev = Some (JStr ''stop'') then
            (if elevenLabsReady b = OPEN
             then Inr (b\<lparr> elevenLabsReady := CLOSING \<rparr>,
                       [LogInfo ''Stream stopped'', ElevenLabsWsClose])
             else Inr (b, [LogInfo ''Stream stopped'']))
          else Inr (b, []))))
       (\<lambda>error. Inr (b, [LogError ''Error parsing Twilio message:'']))"

definition on_twilio_close :: "bridge \<Rightarrow> js_error + bridge \<times> effect list" where
  "on_twilio_close b =
     (if elevenLabsReady b = OPEN
      then Inr (b\<lparr> elevenLabsReady := CLOSING \<rparr>,
                [LogInfo ''Twilio media stream disconnected'', ElevenLabsWsClose])
      else Inr (b, [LogInfo ''Twilio media stream disconnected'']))"

text \<open>
  What the two sockets deliver to the bridge. The library sets a socket's \<^verbatim>\<open>readyState\<close>
  before it emits \<^verbatim>\<open>open\<close> or \<^verbatim>\<open>close\<close>, so the handler runs on the updated bridge.
\<close>

datatype bridge_event =
    ElevenLabsOpened
  | ElevenLabsMessage "json option"
  | ElevenLabsError
  | ElevenLabsClosed
  | TwilioMessage "json option"
  | TwilioClosed

fun deliver :: "bridge \<Rightarrow> bridge_event \<Rightarrow> js_error + bridge \<times> effect list" where
  "deliver b ElevenLabsOpened = on_elevenLabs_open (b\<lparr> elevenLabsReady := OPEN \<rparr>)"
| "deliver b (ElevenLabsMessage frame) = on_elevenLabs_message b frame"
| "deliver b ElevenLabsError = on_elevenLabs_error b"
| "deliver b ElevenLabsClosed = on_elevenLabs_close (b\<lparr> elevenLabsReady := CLOSED \<rparr>)"
| "deliver b (TwilioMessage frame) = on_twilio_message b frame"
| "deliver b TwilioClosed = on_twilio_close (b\<lparr> twilioReady := CLOSED \<rparr>)"

text \<open>
  A run of the bridge: the events in the order they are delivered, the effects
  concatenated. An exception that leaves a handler ends the run with that exception.
\<close>

fun run :: "bridge \<Rightarrow> bridge_event list \<Rightarrow> js_error + bridge \<times> effect list" where
  "run b [] = Inr (b, [])"
| "run b (e # es) =
     (case deliver b e of
        Inl x \<Rightarrow> Inl x
      | Inr (b', effs) \<Rightarrow>
          (case run b' es of
             Inl x \<Rightarrow> Inl x
           | Inr (b'', effs') \<Rightarrow> Inr (b'', effs @ effs')))"

text \<open>The frames a list of effects sends to each side, and the sockets it closes.\<close>

definition agent_frames :: "effect list \<Rightarrow> json list" where
  "agent_frames effs = List.map_filter (\<lambda>e. case e of ElevenLabsSend j \<Rightarrow> Some j | _ \<Rightarrow> None) effs"

definition telephony_frames :: "effect list \<Rightarrow> json list" where
  "telephony_frames effs = List.map_filter (\<lambda>e. case e of TwilioSend j \<Rightarrow> Some j | _ \<Rightarrow> None) effs"

section \<open>Observations used in the statements\<close>

text \<open>A request is valid when every required field is present and non-empty.\<close>

definition valid_request :: "request_body \<Rightarrow> bool" where
  "valid_request body = required_present (req_serverUrl body) body"

text \<open>\<open>a\<close> occurs in the trace before the first occurrence of \<open>b\<close>.\<close>

definition happens_before :: "effect \<Rightarrow> effect \<Rightarrow> effect list \<Rightarrow> bool" where
  "happens_before a b effs = (a \<in> set (takeWhile (\<lambda>e. e \<noteq> b) effs))"

text \<open>The call-placement requests in a trace, in order.\<close>

definition calls_issued :: "effect list \<Rightarrow> call_params list" where
  "calls_issued effs =
     List.map_filter (\<lambda>e. case e of CallsCreate cp \<Rightarrow> Some cp | _ \<Rightarrow> None) effs"

text \<open>
  The requests that reach the store, each at a time: the event loop first runs the timers
  that are due, then the handler.
\<close>

datatype server_event =
    InitiateCall string request_body
  | CallTwiml "string option"
  | MediaStream "string option"

fun handle :: "provider \<Rightarrow> nat \<Rightarrow> server \<Rightarrow> server_event \<Rightarrow> server" where
  "handle p t srv (InitiateCall sessionId body) = fst (snd (initiate_call p t sessionId body srv))"
| "handle p t srv (CallTwiml q) = fst (snd (call_twiml q srv))"
| "handle p t srv (MediaStream q) = fst (snd (media_stream q srv))"

fun exec :: "provider \<Rightarrow> server \<Rightarrow> (nat \<times> server_event) list \<Rightarrow> server" where
  "exec p srv [] = srv"
| "exec p srv ((t, e) # es) = exec p (handle p t (run_timers t srv) e) es"

fun initiates :: "string \<Rightarrow> server_event \<Rightarrow> bool" where
  "initiates k (InitiateCall sessionId body) = (sessionId = k)"
| "initiates k e = False"

text \<open>\<^verbatim>\<open>sessionStore.get(id)\<close> at time \<open>t\<close>.\<close>

definition get_at :: "nat \<Rightarrow> server \<Rightarrow> string \<Rightarrow> session option" where
  "get_at t srv k = sessionStore (run_timers t srv) k"

text \<open>What a telephony or agent frame carries, read the way the handlers read it.\<close>

definition media_payload :: "json \<Rightarrow> js_error + jsval" where
  "media_payload data = bind_err (get_prop (Some data) ''media'') (\<lambda>m. get_prop m ''payload'')"

definition start_streamSid :: "json \<Rightarrow> js_error + jsval" where
  "start_streamSid data = bind_err (get_prop (Some data) ''start'') (\<lambda>st. get_prop st ''streamSid'')"

definition audio_payload :: "json \<Rightarrow> js_error + jsval" where
  "audio_payload message =
     bind_err (get_prop (Some message) ''audio_event'') (\<lambda>ev. get_prop ev ''audio_base_64'')"

definition is_start :: "bridge_event \<Rightarrow> bool" where
  "is_start e =
     (case e of
        TwilioMessage (Some data) \<Rightarrow> get_prop (Some data) ''event'' = Inr (Some (JStr ''start''))
      | _ \<Rightarrow> False)"

definition closes_agent :: "js_error + bridge \<times> effect list \<Rightarrow> bool" where
  "closes_agent r = (case r of Inl x \<Rightarrow> False | Inr (b, effs) \<Rightarrow> ElevenLabsWsClose \<in> set effs)"

definition closes_telephony :: "js_error + bridge \<times> effect list \<Rightarrow> bool" where
  "closes_telephony r = (case r of Inl x \<Rightarrow> False | Inr (b, effs) \<Rightarrow> TwilioSocketClose \<in> set effs)"

section \<open>The specification's wording, for comparison\<close>

text \<open>
  Close propagation as the specification words it: either socket closing, while the
  other is open, closes the other.
\<close>

definition spec_close_propagation :: "bridge \<Rightarrow> bool" where
  "spec_close_propagation b =
     ((if elevenLabsReady b = OPEN then closes_agent (deliver b TwilioClosed) else True) \<and>
      (if twilioReady b = OPEN then closes_telephony (deliver b ElevenLabsClosed) else True))"

text \<open>
  An address carries an explicit scheme when it begins with a scheme name (a letter, then
  letters, digits, \<open>+\<close>, \<open>-\<close> or \<open>.\<close>) followed by \<open>://\<close>.
\<close>

definition is_alpha :: "char \<Rightarrow> bool" where
  "is_alpha c = (c \<in> set ''abcdefghijklmnopqrstuvwxyzABCDEFGHIJKLMNOPQRSTUVWXYZ'')"

definition is_scheme_char :: "char \<Rightarrow> bool" where
  "is_scheme_char c = (is_alpha c \<or> c \<in> set ''0123456789+-.'')"

fun scheme_rest :: "string \<Rightarrow> bool" where
  "scheme_rest [] = False"
| "scheme_rest (c # cs) =
     (if c = CHR '':'' then startsWith cs ''//'' else is_scheme_char c \<and> scheme_rest cs)"

definition has_explicit_scheme :: "string \<Rightarrow> bool" where
  "has_explicit_scheme s = (case s of [] \<Rightarrow> False | c # cs \<Rightarrow> is_alpha c \<and> scheme_rest cs)"

text \<open>
  The normalization as the specification words it: \<open>https://\<close> is prepended when the
  address has no scheme, and an address with an explicit scheme is left unchanged.
\<close>

definition spec_normalize :: "string \<Rightarrow> string" where
  "spec_normalize s = (if has_explicit_scheme s then s else ''https://'' @ s)"

section \<open>Example inputs and invariants\<close>

definition example_body :: request_body where
  "example_body =
     \<lparr> req_twilioAccountSid = Some ''AC1'', req_twilioAuthToken = Some ''tok'',
       req_twilioPhoneNumber = Some ''+15550100'', req_elevenLabsApiKey = Some ''key'',
       req_elevenLabsAgentId = Some ''agent'', req_zoomDialIn = Some ''+15550199'',
       req_meetingId = Some ''1234'', req_passcode = Some ''56'',
       req_serverUrl = Some ''bridge.example.org'' \<rparr>"

definition example_provider :: provider where
  "example_provider = \<lparr> twilio_new = (\<lambda>a t. None), calls_create = (\<lambda>cp. Inr ''CA1'') \<rparr>"

definition empty_server :: server where
  "empty_server = \<lparr> sessionStore = Map.empty, timers = [] \<rparr>"

definition media_frame_abc :: json where
  "media_frame_abc =
     JObj [(''event'', JStr ''media''), (''media'', JObj [(''payload'', JStr ''abc'')])]"

definition start_frame_S1 :: json where
  "start_frame_S1 =
     JObj [(''event'', JStr ''start''), (''start'', JObj [(''streamSid'', JStr ''S1'')])]"

definition audio_message_xyz :: json where
  "audio_message_xyz =
     JObj [(''type'', JStr ''audio''), (''audio_event'', JObj [(''audio_base_64'', JStr ''xyz'')])]"

definition open_bridge :: bridge where
  "open_bridge = initial_bridge\<lparr> elevenLabsReady := OPEN, isElevenLabsConnected := True \<rparr>"

text \<open>
  The invariant of a bridge: an agent socket that is open has been reported open, so the
  flag is set whenever the socket is open.
\<close>

definition open_flagged :: "bridge \<Rightarrow> bool" where
  "open_flagged b = (elevenLabsReady b \<noteq> OPEN \<or> isElevenLabsConnected b)"

text \<open>While every timer of the session is still ahead, the session stays.\<close>

definition live_until :: "nat \<Rightarrow> string \<Rightarrow> session \<Rightarrow> server \<Rightarrow> bool" where
  "live_until d k s srv =
     (sessionStore srv k = Some s \<and> list_all (\<lambda>(due, k'). k' \<noteq> k \<or> d \<le> due) (timers srv))"

text \<open>A session that is still stored has a timer that fires by \<open>d\<close>.\<close>

definition expires_by :: "nat \<Rightarrow> string \<Rightarrow> server \<Rightarrow> bool" where
  "expires_by d k srv =
     (sessionStore srv k = None \<or> list_ex (\<lambda>(due, k'). k' = k \<and> due \<le> d) (timers srv))"

definition example_events :: "(nat \<times> server_event) list" where
  "example_events =
     [(1000, CallTwiml (Some ''s1'')), (2000, MediaStream (Some ''s1'')),
      (60000, InitiateCall ''s2'' example_body)]"

section \<open>Basic facts\<close>

lemma startsWith_Nil: "startsWith s [] = True"
  by (simp add: startsWith_def)

lemma startsWith_Cons: "startsWith (d # s) (c # p) = (d = c \<and> startsWith s p)"
  by (auto simp: startsWith_def)

lemma startsWith_empty: "startsWith [] (c # p) = False"
  by (simp add: startsWith_def)

lemmas startsWith_simps = startsWith_Nil startsWith_Cons startsWith_empty

lemma startsWith_append: "startsWith (p @ s) p"
  by (simp add: startsWith_def)

lemma js_object_Nil: "js_object [] = JObj []"
  by (simp add: js_object_def)

lemma js_object_Some: "js_object ((k, Some j) # kvs) = (case js_object kvs of JObj r \<Rightarrow> JObj ((k, j) # r) | x \<Rightarrow> x)"
  by (simp add: js_object_def)

lemma js_object_None: "js_object ((k, None) # kvs) = js_object kvs"
  by (simp add: js_object_def)

lemmas js_object_simps = js_object_Nil js_object_Some js_object_None

lemma try_catch_returns: "(\<And>e. \<exists>r. h e = Inr r) \<Longrightarrow> \<exists>r. try_catch body h = Inr r"
  by (cases body) auto

lemma truthy_str_normalize: "truthy_str (normalize_serverUrl u) = truthy_str u"
  by (simp add: normalize_serverUrl_def truthy_str_def)

lemma required_present_normalize:
  "required_present (normalize_serverUrl (req_serverUrl body)) body = valid_request body"
  by (simp add: required_present_def valid_request_def truthy_str_normalize)

section \<open>The DTMF sequence\<close>

lemma sendDigits_both:
  "m \<noteq> [] \<Longrightarrow> pc \<noteq> [] \<Longrightarrow> sendDigits (Some m) (Some pc) = ''wwww'' @ m @ ''#wwww'' @ pc @ ''#''"
  by (simp add: sendDigits_def truthy_str_def to_str_def)

lemma sendDigits_no_passcode:
  "m \<noteq> [] \<Longrightarrow> \<not> truthy_str pc \<Longrightarrow> sendDigits (Some m) pc = ''wwww'' @ m @ ''#wwww#''"
  by (simp add: sendDigits_def truthy_str_def to_str_def)

lemma sendDigits_no_meetingId: "\<not> truthy_str m \<Longrightarrow> sendDigits m pc = ''wwww''"
  by (simp add: sendDigits_def)

lemma new_call_params_sendDigits:
  "cp_sendDigits (new_call_params url sid
      (body\<lparr> req_meetingId := Some ''1234'', req_passcode := Some ''56'' \<rparr>)) = ''wwww1234#wwww56#''
   \<and> cp_sendDigits (new_call_params url sid
      (body\<lparr> req_meetingId := Some ''1234'', req_passcode := None \<rparr>)) = ''wwww1234#wwww#''
   \<and> cp_sendDigits (new_call_params url sid
      (body\<lparr> req_meetingId := None, req_passcode := pc \<rparr>)) = ''wwww''"
  by (simp add: new_call_params_def sendDigits_def truthy_str_def to_str_def)

section \<open>Normalization of the callback address\<close>

lemma normalize_serverUrl_Some:
  "normalize_serverUrl (Some u) =
     Some (if u \<noteq> [] \<and> \<not> startsWith u ''http'' then ''https://'' @ u else u)"
  by (simp add: normalize_serverUrl_def truthy_str_def to_str_def)

lemma normalize_serverUrl_starts:
  assumes "truthy_str u"
  shows "startsWith (to_str (normalize_serverUrl u)) ''http''"
proof -
  obtain s where u: "u = Some s" "s \<noteq> []"
    using assms by (cases u) (auto simp: truthy_str_def)
  show ?thesis
    by (cases "startsWith s ''http''")
       (simp_all add: u normalize_serverUrl_Some to_str_def startsWith_simps)
qed

lemma normalize_serverUrl_idem: "normalize_serverUrl (normalize_serverUrl u) = normalize_serverUrl u"
proof (cases u)
  case None
  then show ?thesis by (simp add: normalize_serverUrl_def truthy_str_def)
next
  case (Some s)
  then show ?thesis
    by (cases "startsWith s ''http''")
       (simp_all add: normalize_serverUrl_Some startsWith_simps)
qed


lemma spec_normalize_examples:
  "spec_normalize ''httpbin.org'' = ''https://httpbin.org''"
  "spec_normalize ''ws://example.org'' = ''ws://example.org''"
  "normalize_serverUrl (Some ''httpbin.org'') = Some ''httpbin.org''"
  "normalize_serverUrl (Some ''ws://example.org'') = Some ''https://ws://example.org''"
  by (simp_all add: normalize_serverUrl_Some spec_normalize_def has_explicit_scheme_def
      is_alpha_def is_scheme_char_def startsWith_simps)

section \<open>initiate-call\<close>

lemma initiate_call_invalid:
  "\<not> valid_request body \<Longrightarrow>
   initiate_call p now sid body srv =
     (Reply400 ''All fields (except Meeting ID/Passcode) are required'', srv, [])"
  by (simp add: initiate_call_def required_present_normalize)

lemma initiate_call_server:
  "valid_request body \<Longrightarrow>
   fst (snd (initiate_call p now sid body srv)) =
     srv\<lparr> sessionStore := (sessionStore srv)(sid \<mapsto> new_session (normalize_serverUrl (req_serverUrl body)) body),
          timers := timers srv @ [(now + 3600000, sid)] \<rparr>"
  by (simp add: initiate_call_def required_present_normalize Let_def
      split: option.splits sum.splits)

lemma initiate_call_effects:
  assumes "valid_request body"
  shows "\<exists>post. snd (snd (initiate_call p now sid body srv)) =
           [StoreSet sid (new_session (normalize_serverUrl (req_serverUrl body)) body),
            SetTimeoutDelete sid 3600000,
            TwilioNew (req_twilioAccountSid body) (req_twilioAuthToken body)] @ post
         \<and> (\<forall>cp. CallsCreate cp \<in> set post \<longrightarrow>
               cp = new_call_params (normalize_serverUrl (req_serverUrl body)) sid body)
         \<and> (\<forall>c i. fst (initiate_call p now sid body srv) = Reply200Call c i \<longrightarrow>
               i = sid \<and>
               CallsCreate (new_call_params (normalize_serverUrl (req_serverUrl body)) sid body) \<in> set post \<and>
               calls_create p (new_call_params (normalize_serverUrl (req_serverUrl body)) sid body) = Inr c)"
  using assms
  by (auto simp: initiate_call_def required_present_normalize Let_def reply500_def
      split: option.splits sum.splits)

lemma happens_before_prefix:
  "a \<in> set pre \<Longrightarrow> b \<notin> set pre \<Longrightarrow> b \<in> set post \<Longrightarrow> happens_before a b (pre @ post)"
  by (simp add: happens_before_def takeWhile_append)

text \<open>
  C5. For a valid request the session is in the store under the generated id and holds
  the supplied credentials and the normalized callback address; the store is written
  before the provider is asked to place the call; the URL given to the provider carries
  the same id as the one the reply returns.
\<close>

theorem initiate_call_session:
  assumes "valid_request body"
    and "initiate_call p now sid body srv = (rep, srv', effs)"
  shows "sessionStore srv' sid =
           Some \<lparr> twilioAccountSid = req_twilioAccountSid body,
                  twilioAuthToken = req_twilioAuthToken body,
                  elevenLabsApiKey = req_elevenLabsApiKey body,
                  elevenLabsAgentId = req_elevenLabsAgentId body,
                  serverUrl = normalize_serverUrl (req_serverUrl body) \<rparr>
       \<and> (\<forall>cp. CallsCreate cp \<in> set effs \<longrightarrow>
             happens_before
               (StoreSet sid (new_session (normalize_serverUrl (req_serverUrl body)) body))
               (CallsCreate cp) effs
             \<and> cp_url cp = to_str (normalize_serverUrl (req_serverUrl body)) @
                              ''/call/twiml?sessionId='' @ sid)
       \<and> (\<forall>c i. rep = Reply200Call c i \<longrightarrow>
             i = sid \<and> (\<exists>cp. CallsCreate cp \<in> set effs \<and> calls_create p cp = Inr c))"
proof -
  let ?s = "new_session (normalize_serverUrl (req_serverUrl body)) body"
  let ?pre = "[StoreSet sid ?s, SetTimeoutDelete sid 3600000,
               TwilioNew (req_twilioAccountSid body) (req_twilioAuthToken body)]"
  from initiate_call_effects [OF assms(1), of p now sid srv] assms(2)
  obtain post where effs: "effs = ?pre @ post"
    and cps: "\<forall>cp. CallsCreate cp \<in> set post \<longrightarrow>
               cp = new_call_params (normalize_serverUrl (req_serverUrl body)) sid body"
    and ok: "\<forall>c i. rep = Reply200Call c i \<longrightarrow>
               i = sid \<and>
               CallsCreate (new_call_params (normalize_serverUrl (req_serverUrl body)) sid body) \<in> set post \<and>
               calls_create p (new_call_params (normalize_serverUrl (req_serverUrl body)) sid body) = Inr c"
    by auto
  have srv': "srv' = srv\<lparr> sessionStore := (sessionStore srv)(sid \<mapsto> ?s),
                          timers := timers srv @ [(now + 3600000, sid)] \<rparr>"
    using initiate_call_server [OF assms(1), of p now sid srv] assms(2) by simp
  have 1: "sessionStore srv' sid =
           Some \<lparr> twilioAccountSid = req_twilioAccountSid body,
                  twilioAuthToken = req_twilioAuthToken body,
                  elevenLabsApiKey = req_elevenLabsApiKey body,
                  elevenLabsAgentId = req_elevenLabsAgentId body,
                  serverUrl = normalize_serverUrl (req_serverUrl body) \<rparr>"
    by (simp add: srv' new_session_def)
  have 2: "happens_before (StoreSet sid ?s) (CallsCreate cp) effs
           \<and> cp_url cp = to_str (normalize_serverUrl (req_serverUrl body)) @ ''/call/twiml?sessionId='' @ sid"
    if "CallsCreate cp \<in> set effs" for cp
  proof -
    have in_post: "CallsCreate cp \<in> set post" using that by (auto simp: effs)
    have "happens_before (StoreSet sid ?s) (CallsCreate cp) (?pre @ post)"
      by (rule happens_before_prefix) (use in_post in simp_all)
    moreover have "cp = new_call_params (normalize_serverUrl (req_serverUrl body)) sid body"
      using cps in_post by blast
    ultimately show ?thesis by (simp add: effs new_call_params_def)
  qed
  have 3: "i = sid \<and> (\<exists>cp. CallsCreate cp \<in> set effs \<and> calls_create p cp = Inr c)"
    if "rep = Reply200Call c i" for c i
    using ok that by (auto simp: effs)
  show ?thesis using 1 2 3 by blast
qed

lemma example_valid: "valid_request example_body"
  by (simp add: valid_request_def required_present_def example_body_def truthy_str_def)

lemma example_initiate:
  "initiate_call example_provider 0 ''s1'' example_body empty_server =
     (Reply200Call ''CA1'' ''s1'',
      \<lparr> sessionStore = [''s1'' \<mapsto> \<lparr> twilioAccountSid = Some ''AC1'', twilioAuthToken = Some ''tok'',
            elevenLabsApiKey = Some ''key'', elevenLabsAgentId = Some ''agent'',
            serverUrl = Some ''https://bridge.example.org'' \<rparr>],
        timers = [(3600000, ''s1'')] \<rparr>,
      [StoreSet ''s1'' \<lparr> twilioAccountSid = Some ''AC1'', twilioAuthToken = Some ''tok'',
            elevenLabsApiKey = Some ''key'', elevenLabsAgentId = Some ''agent'',
            serverUrl = Some ''https://bridge.example.org'' \<rparr>,
       SetTimeoutDelete ''s1'' 3600000,
       TwilioNew (Some ''AC1'') (Some ''tok''),
       CallsCreate \<lparr> cp_url = ''https://bridge.example.org/call/twiml?sessionId=s1'',
                     cp_to = Some ''+15550199'', cp_from = Some ''+15550100'',
                     cp_sendDigits = ''wwww1234#wwww56#'' \<rparr>,
       LogInfo ''Call initiated''])"
  by (simp add: initiate_call_def required_present_def example_body_def example_provider_def
      empty_server_def truthy_str_def normalize_serverUrl_Some startsWith_simps to_str_def
      new_session_def new_call_params_def sendDigits_def Let_def)

theorem initiate_call_session_witness:
  "valid_request example_body
   \<and> sessionStore (fst (snd (initiate_call example_provider 0 ''s1'' example_body empty_server))) ''s1'' =
       Some \<lparr> twilioAccountSid = Some ''AC1'', twilioAuthToken = Some ''tok'',
              elevenLabsApiKey = Some ''key'', elevenLabsAgentId = Some ''agent'',
              serverUrl = Some ''https://bridge.example.org'' \<rparr>
   \<and> fst (initiate_call example_provider 0 ''s1'' example_body empty_server) = Reply200Call ''CA1'' ''s1''"
  using initiate_call_session [OF example_valid example_initiate] example_valid example_initiate
  by simp

section \<open>The DTMF sequence in the call-placement request\<close>

lemma initiate_call_calls_issued:
  assumes "valid_request body"
    and "twilio_new p (req_twilioAccountSid body) (req_twilioAuthToken body) = None"
  shows "calls_issued (snd (snd (initiate_call p now sid body srv))) =
           [new_call_params (normalize_serverUrl (req_serverUrl body)) sid body]"
  using assms
  by (cases "calls_create p (new_call_params (normalize_serverUrl (req_serverUrl body)) sid body)")
     (simp_all add: initiate_call_def required_present_normalize Let_def calls_issued_def
        List.map_filter_simps)

lemma initiate_call_no_client:
  assumes "valid_request body"
    and "twilio_new p (req_twilioAccountSid body) (req_twilioAuthToken body) = Some e"
  shows "calls_issued (snd (snd (initiate_call p now sid body srv))) = []"
  using assms
  by (simp add: initiate_call_def required_present_normalize Let_def calls_issued_def
        List.map_filter_simps)

lemma initiate_call_invalid_no_call:
  "\<not> valid_request body \<Longrightarrow> calls_issued (snd (snd (initiate_call p now sid body srv))) = []"
  by (simp add: initiate_call_invalid calls_issued_def List.map_filter_simps)

text \<open>
  C2. The handler of a valid request, once the provider's client is constructed, asks
  the provider for exactly one call, and the DTMF string of that request is wwww1234#wwww56#
  for join id 1234 and passcode 56, wwww1234#wwww# for join id 1234 and no passcode, and
  wwww without a join id, whatever the passcode.
\<close>

theorem initiate_call_sendDigits:
  assumes "valid_request body"
    and "twilio_new p (req_twilioAccountSid body) (req_twilioAuthToken body) = None"
  shows "(req_meetingId body = Some ''1234'' \<and> req_passcode body = Some ''56'' \<longrightarrow>
            map cp_sendDigits (calls_issued (snd (snd (initiate_call p now sid body srv)))) =
              [''wwww1234#wwww56#''])
       \<and> (req_meetingId body = Some ''1234'' \<and> req_passcode body = None \<longrightarrow>
            map cp_sendDigits (calls_issued (snd (snd (initiate_call p now sid body srv)))) =
              [''wwww1234#wwww#''])
       \<and> (req_meetingId body = None \<longrightarrow>
            map cp_sendDigits (calls_issued (snd (snd (initiate_call p now sid body srv)))) =
              [''wwww''])"
  by (simp add: initiate_call_calls_issued [OF assms] new_call_params_def sendDigits_def
      truthy_str_def to_str_def)

lemma valid_request_join_fields:
  "valid_request (body\<lparr> req_meetingId := m, req_passcode := pc \<rparr>) = valid_request body"
  by (simp add: valid_request_def required_present_def)

lemma example_client:
  "twilio_new example_provider
     (req_twilioAccountSid (example_body\<lparr> req_meetingId := m, req_passcode := pc \<rparr>))
     (req_twilioAuthToken (example_body\<lparr> req_meetingId := m, req_passcode := pc \<rparr>)) = None"
  by (simp add: example_provider_def)

lemma example_valid_join:
  "valid_request (example_body\<lparr> req_meetingId := m, req_passcode := pc \<rparr>)"
  by (simp add: valid_request_join_fields example_valid)

theorem initiate_call_sendDigits_witness:
  "map cp_sendDigits (calls_issued (snd (snd (initiate_call example_provider 0 ''s1''
      (example_body\<lparr> req_meetingId := Some ''1234'', req_passcode := Some ''56'' \<rparr>) empty_server)))) =
     [''wwww1234#wwww56#'']
   \<and> map cp_sendDigits (calls_issued (snd (snd (initiate_call example_provider 0 ''s1''
      (example_body\<lparr> req_meetingId := Some ''1234'', req_passcode := None \<rparr>) empty_server)))) =
     [''wwww1234#wwww#'']
   \<and> map cp_sendDigits (calls_issued (snd (snd (initiate_call example_provider 0 ''s1''
      (example_body\<lparr> req_meetingId := None, req_passcode := Some ''56'' \<rparr>) empty_server)))) =
     [''wwww'']"
proof -
  note a = initiate_call_sendDigits
    [where body = "example_body\<lparr> req_meetingId := Some ''1234'', req_passcode := Some ''56'' \<rparr>"
       and p = example_provider and now = 0 and sid = "''s1''" and srv = empty_server,
     OF example_valid_join example_client]
  note b = initiate_call_sendDigits
    [where body = "example_body\<lparr> req_meetingId := Some ''1234'', req_passcode := None \<rparr>"
       and p = example_provider and now = 0 and sid = "''s1''" and srv = empty_server,
     OF example_valid_join example_client]
  note c = initiate_call_sendDigits
    [where body = "example_body\<lparr> req_meetingId := None, req_passcode := Some ''56'' \<rparr>"
       and p = example_provider and now = 0 and sid = "''s1''" and srv = empty_server,
     OF example_valid_join example_client]
  show ?thesis using a b c by simp
qed

section \<open>The bridge never throws\<close>

lemma on_twilio_message_returns: "\<exists>r. on_twilio_message b frame = Inr r"
  unfolding on_twilio_message_def by (rule try_catch_returns) simp

lemma on_elevenLabs_message_returns: "\<exists>r. on_elevenLabs_message b frame = Inr r"
  unfolding on_elevenLabs_message_def by (rule try_catch_returns) simp

lemma deliver_returns: "\<exists>b' effs. deliver b e = Inr (b', effs)"
  using on_twilio_message_returns [of b] on_elevenLabs_message_returns [of b]
  by (cases e)
     (auto simp: on_elevenLabs_open_def on_elevenLabs_error_def on_elevenLabs_close_def
        on_twilio_close_def)

lemma run_returns: "\<exists>b' effs. run b es = Inr (b', effs)"
proof (induction es arbitrary: b)
  case Nil
  show ?case by simp
next
  case (Cons e es)
  obtain b1 effs1 where d: "deliver b e = Inr (b1, effs1)"
    using deliver_returns by blast
  obtain b2 effs2 where r: "run b1 es = Inr (b2, effs2)"
    using Cons.IH by blast
  show ?case using d r by simp
qed

lemma run_Cons_Inr:
  assumes "run b (e # es) = Inr (b'', effs)"
  obtains b' effs1 effs2 where "deliver b e = Inr (b', effs1)" "run b' es = Inr (b'', effs2)"
    "effs = effs1 @ effs2"
  using assms by (auto split: sum.splits prod.splits)

section \<open>What each handler changes\<close>

lemma on_twilio_message_cases:
  assumes "on_twilio_message b frame = Inr (b', effs)"
  shows "b' = b \<or> (is_start (TwilioMessage frame) \<and> (\<exists>sid. b' = b\<lparr> streamSid := sid \<rparr>))
         \<or> (elevenLabsReady b = OPEN \<and> b' = b\<lparr> elevenLabsReady := CLOSING \<rparr>)"
proof (cases frame)
  case None
  then show ?thesis using assms by (simp add: on_twilio_message_def parse_frame_def)
next
  case (Some data)
  show ?thesis
  proof (cases "get_prop (Some data) ''event''")
    case (Inl e)
    then show ?thesis using assms Some by (simp add: on_twilio_message_def parse_frame_def)
  next
    case (Inr ev)
    then show ?thesis using assms Some
      by (cases "get_prop (Some data) ''start''"; cases "get_prop (Some data) ''media''")
         (auto simp: on_twilio_message_def parse_frame_def is_start_def split: if_splits sum.splits
               elim!: bind_err.elims try_catch.elims)
  qed
qed

lemma bind_err_Inr_iff: "bind_err m f = Inr y \<longleftrightarrow> (\<exists>x. m = Inr x \<and> f x = Inr y)"
  by (cases m) auto

lemma try_catch_Inr_iff:
  "try_catch m h = Inr y \<longleftrightarrow> m = Inr y \<or> (\<exists>e. m = Inl e \<and> h e = Inr y)"
  by (cases m) auto

lemma on_elevenLabs_message_state:
  assumes "on_elevenLabs_message b frame = Inr (b', effs)"
  shows "b' = b"
  using assms by (auto simp: on_elevenLabs_message_def try_catch_Inr_iff bind_err_Inr_iff)

lemma deliver_streamSid:
  assumes "deliver b e = Inr (b', effs)" "\<not> is_start e"
  shows "streamSid b' = streamSid b"
proof (cases e)
  case (TwilioMessage frame)
  then show ?thesis using assms on_twilio_message_cases [of b frame b' effs] by auto
next
  case (ElevenLabsMessage frame)
  then show ?thesis using assms on_elevenLabs_message_state [of b frame b' effs] by auto
qed (use assms in \<open>auto simp: on_elevenLabs_open_def on_elevenLabs_error_def
       on_elevenLabs_close_def on_twilio_close_def split: if_splits\<close>)

lemma run_streamSid:
  assumes "run b es = Inr (b', effs)" "\<forall>e\<in>set es. \<not> is_start e"
  shows "streamSid b' = streamSid b"
  using assms
proof (induction es arbitrary: b effs)
  case Nil
  then show ?case by simp
next
  case (Cons e es)
  from Cons.prems(1) obtain b1 effs1 effs2
    where d: "deliver b e = Inr (b1, effs1)" and r: "run b1 es = Inr (b', effs2)"
    by (rule run_Cons_Inr)
  have "streamSid b1 = streamSid b" using d Cons.prems(2) by (simp add: deliver_streamSid)
  moreover have "streamSid b' = streamSid b1" using Cons.IH [OF r] Cons.prems(2) by simp
  ultimately show ?case by simp
qed


lemma deliver_open_flagged:
  assumes "deliver b e = Inr (b', effs)" "open_flagged b"
  shows "open_flagged b'"
proof (cases e)
  case (TwilioMessage frame)
  then show ?thesis using assms on_twilio_message_cases [of b frame b' effs]
    by (auto simp: open_flagged_def)
next
  case (ElevenLabsMessage frame)
  then show ?thesis using assms on_elevenLabs_message_state [of b frame b' effs] by auto
qed (use assms in \<open>auto simp: open_flagged_def on_elevenLabs_open_def on_elevenLabs_error_def
       on_elevenLabs_close_def on_twilio_close_def split: if_splits\<close>)

lemma run_open_flagged:
  assumes "run b es = Inr (b', effs)" "open_flagged b"
  shows "open_flagged b'"
  using assms
proof (induction es arbitrary: b effs)
  case Nil
  then show ?case by simp
next
  case (Cons e es)
  from Cons.prems(1) obtain b1 effs1 effs2
    where d: "deliver b e = Inr (b1, effs1)" and r: "run b1 es = Inr (b', effs2)"
    by (rule run_Cons_Inr)
  show ?case using Cons.IH [OF r] deliver_open_flagged [OF d Cons.prems(2)] by simp
qed

lemma initial_open_flagged: "open_flagged initial_bridge"
  by (simp add: open_flagged_def initial_bridge_def)

section \<open>Telephony media to the agent\<close>

lemma on_twilio_message_media_closed:
  assumes "get_prop (Some data) ''event'' = Inr (Some (JStr ''media''))"
    and "\<not> (isElevenLabsConnected b \<and> elevenLabsReady b = OPEN)"
  shows "on_twilio_message b (Some data) = Inr (b, [])"
  using assms by (auto simp: on_twilio_message_def parse_frame_def)

lemma on_twilio_message_media_open:
  assumes "get_prop (Some data) ''event'' = Inr (Some (JStr ''media''))"
    and "media_payload data = Inr (Some p)"
    and "isElevenLabsConnected b" "elevenLabsReady b = OPEN"
  shows "on_twilio_message b (Some data) = Inr (b, [ElevenLabsSend (JObj [(''user_audio_chunk'', p)])])"
proof -
  obtain m where m: "get_prop (Some data) ''media'' = Inr m" "get_prop m ''payload'' = Inr (Some p)"
    using assms(2) by (cases "get_prop (Some data) ''media''") (auto simp: media_payload_def)
  show ?thesis using assms(1,3,4) m
    by (simp add: on_twilio_message_def parse_frame_def js_object_simps)
qed

text \<open>
  C3. A telephony media event that arrives on a bridge, after any events, while the
  agent socket is not open changes nothing and sends nothing: no frame, no error, nothing
  kept for later. While the agent socket is open it sends exactly one agent frame, whose
  only member user_audio_chunk is the event's payload.
\<close>

theorem media_event_forwarding:
  assumes "run initial_bridge es = Inr (b, effs)"
    and "get_prop (Some data) ''event'' = Inr (Some (JStr ''media''))"
    and "media_payload data = Inr (Some p)"
  shows "deliver b (TwilioMessage (Some data)) =
           Inr (b, if elevenLabsReady b = OPEN
                   then [ElevenLabsSend (JObj [(''user_audio_chunk'', p)])] else [])"
proof (cases "elevenLabsReady b = OPEN")
  case True
  have "open_flagged b" using run_open_flagged [OF assms(1) initial_open_flagged] .
  then have "isElevenLabsConnected b" using True by (simp add: open_flagged_def)
  then show ?thesis using True on_twilio_message_media_open [OF assms(2,3)] by simp
next
  case False
  then show ?thesis using on_twilio_message_media_closed [OF assms(2)] by simp
qed

lemma run_opened: "run initial_bridge [ElevenLabsOpened] = Inr (open_bridge, [LogInfo ''Connected to ElevenLabs''])"
  by (simp add: on_elevenLabs_open_def open_bridge_def initial_bridge_def)

lemma run_nothing: "run initial_bridge [] = Inr (initial_bridge, [])"
  by simp

lemma media_frame_abc_event: "get_prop (Some media_frame_abc) ''event'' = Inr (Some (JStr ''media''))"
  by (simp add: media_frame_abc_def)

lemma media_frame_abc_payload: "media_payload media_frame_abc = Inr (Some (JStr ''abc''))"
  by (simp add: media_frame_abc_def media_payload_def)

theorem media_event_forwarding_witness:
  "deliver initial_bridge (TwilioMessage (Some media_frame_abc)) = Inr (initial_bridge, [])
   \<and> deliver open_bridge (TwilioMessage (Some media_frame_abc)) =
       Inr (open_bridge, [ElevenLabsSend (JObj [(''user_audio_chunk'', JStr ''abc'')])])"
  using media_event_forwarding [OF run_nothing media_frame_abc_event media_frame_abc_payload]
    media_event_forwarding [OF run_opened media_frame_abc_event media_frame_abc_payload]
  by (simp add: initial_bridge_def open_bridge_def)

section \<open>Agent audio to the telephony socket\<close>

lemma get_prop_Some_opt_chain:
  "get_prop v k = Inr (Some x) \<Longrightarrow> opt_chain v k = Inr (Some x)"
  by (cases "(v, k)" rule: opt_chain.cases) auto

lemma handleElevenLabsMessage_audio:
  assumes "get_prop (Some message) ''type'' = Inr (Some (JStr ''audio''))"
    and "audio_payload message = Inr (Some p)"
    and "truthy (Some p)"
  shows "handleElevenLabsMessage message sid =
           Inr [TwilioSend (js_object [(''event'', Some (JStr ''media'')), (''streamSid'', sid),
                                       (''media'', Some (JObj [(''payload'', p)]))])]"
proof -
  obtain ev where ev: "get_prop (Some message) ''audio_event'' = Inr ev"
      "get_prop ev ''audio_base_64'' = Inr (Some p)"
    using assms(2) by (auto simp: audio_payload_def bind_err_Inr_iff)
  show ?thesis
    using assms(1,3) ev get_prop_Some_opt_chain [OF ev(2)]
    by (simp add: handleElevenLabsMessage_def js_object_simps)
qed

lemma on_elevenLabs_message_audio:
  assumes "get_prop (Some message) ''type'' = Inr (Some (JStr ''audio''))"
    and "audio_payload message = Inr (Some p)"
    and "truthy (Some p)"
  shows "on_elevenLabs_message b (Some message) =
           Inr (b, [TwilioSend (js_object [(''event'', Some (JStr ''media'')),
                                           (''streamSid'', streamSid b),
                                           (''media'', Some (JObj [(''payload'', p)]))])])"
  by (simp add: on_elevenLabs_message_def parse_frame_def handleElevenLabsMessage_audio [OF assms])

lemma on_twilio_message_start:
  assumes "get_prop (Some data) ''event'' = Inr (Some (JStr ''start''))"
    and "start_streamSid data = Inr sid"
  shows "on_twilio_message b (Some data) = Inr (b\<lparr> streamSid := sid \<rparr>, [LogInfo ''Stream started''])"
proof -
  obtain st where st: "get_prop (Some data) ''start'' = Inr st" "get_prop st ''streamSid'' = Inr sid"
    using assms(2) by (auto simp: start_streamSid_def bind_err_Inr_iff)
  show ?thesis using assms(1) st by (simp add: on_twilio_message_def parse_frame_def)
qed

text \<open>
  C4. After a telephony start event that carries a stream identifier, and any further
  events that are not start events, an agent audio event with a non-empty payload sends
  exactly one frame to the telephony socket: a media event with that stream identifier
  and the payload as it came. The claim's instance is the stream identifier S1 and the
  payload xyz.
\<close>

theorem agent_audio_after_start:
  assumes "get_prop (Some start) ''event'' = Inr (Some (JStr ''start''))"
    and "start_streamSid start = Inr (Some sid)"
    and "\<forall>e\<in>set mid. \<not> is_start e"
    and "run b (TwilioMessage (Some start) # mid) = Inr (b', effs)"
    and "get_prop (Some message) ''type'' = Inr (Some (JStr ''audio''))"
    and "audio_payload message = Inr (Some p)"
    and "truthy (Some p)"
  shows "deliver b' (ElevenLabsMessage (Some message)) =
           Inr (b', [TwilioSend (JObj [(''event'', JStr ''media''), (''streamSid'', sid),
                                       (''media'', JObj [(''payload'', p)])])])"
proof -
  from assms(4) obtain b1 effs1 effs2
    where d: "deliver b (TwilioMessage (Some start)) = Inr (b1, effs1)"
      and r: "run b1 mid = Inr (b', effs2)"
    by (rule run_Cons_Inr)
  have "streamSid b1 = Some sid"
    using d on_twilio_message_start [OF assms(1,2), of b] by auto
  then have "streamSid b' = Some sid"
    using run_streamSid [OF r assms(3)] by simp
  then show ?thesis
    using on_elevenLabs_message_audio [OF assms(5,6,7), of b'] by (simp add: js_object_simps)
qed

lemma start_frame_S1_event: "get_prop (Some start_frame_S1) ''event'' = Inr (Some (JStr ''start''))"
  by (simp add: start_frame_S1_def)

lemma start_frame_S1_streamSid: "start_streamSid start_frame_S1 = Inr (Some (JStr ''S1''))"
  by (simp add: start_frame_S1_def start_streamSid_def)

lemma audio_message_xyz_type: "get_prop (Some audio_message_xyz) ''type'' = Inr (Some (JStr ''audio''))"
  by (simp add: audio_message_xyz_def)

lemma audio_message_xyz_payload: "audio_payload audio_message_xyz = Inr (Some (JStr ''xyz''))"
  by (simp add: audio_message_xyz_def audio_payload_def)

lemma not_start_opened: "\<forall>e\<in>set [ElevenLabsOpened]. \<not> is_start e"
  by (simp add: is_start_def)

lemma run_start_opened:
  "run initial_bridge [TwilioMessage (Some start_frame_S1), ElevenLabsOpened] =
     Inr (open_bridge\<lparr> streamSid := Some (JStr ''S1'') \<rparr>,
          [LogInfo ''Stream started'', LogInfo ''Connected to ElevenLabs''])"
  by (simp add: on_twilio_message_start [OF start_frame_S1_event start_frame_S1_streamSid]
      on_elevenLabs_open_def open_bridge_def initial_bridge_def)

theorem agent_audio_after_start_witness:
  "run initial_bridge [TwilioMessage (Some start_frame_S1), ElevenLabsOpened] =
     Inr (open_bridge\<lparr> streamSid := Some (JStr ''S1'') \<rparr>,
          [LogInfo ''Stream started'', LogInfo ''Connected to ElevenLabs''])
   \<and> deliver (open_bridge\<lparr> streamSid := Some (JStr ''S1'') \<rparr>)
         (ElevenLabsMessage (Some audio_message_xyz)) =
     Inr (open_bridge\<lparr> streamSid := Some (JStr ''S1'') \<rparr>,
          [TwilioSend (JObj [(''event'', JStr ''media''), (''streamSid'', JStr ''S1''),
                             (''media'', JObj [(''payload'', JStr ''xyz'')])])])"
  by (rule conjI [OF run_start_opened
        agent_audio_after_start [OF start_frame_S1_event start_frame_S1_streamSid
          not_start_opened run_start_opened audio_message_xyz_type audio_message_xyz_payload]])
     simp

text \<open>
  C10. On a bridge that has received no start event, an agent audio event with a
  non-empty payload still sends one media frame to the telephony socket, and its
  streamSid member is null.
\<close>

theorem agent_audio_before_start:
  assumes "\<forall>e\<in>set es. \<not> is_start e"
    and "run initial_bridge es = Inr (b, effs)"
    and "get_prop (Some message) ''type'' = Inr (Some (JStr ''audio''))"
    and "audio_payload message = Inr (Some p)"
    and "truthy (Some p)"
  shows "deliver b (ElevenLabsMessage (Some message)) =
           Inr (b, [TwilioSend (JObj [(''event'', JStr ''media''), (''streamSid'', JNull),
                                      (''media'', JObj [(''payload'', p)])])])"
proof -
  have "streamSid b = Some JNull"
    using run_streamSid [OF assms(2,1)] by (simp add: initial_bridge_def)
  then show ?thesis
    using on_elevenLabs_message_audio [OF assms(3,4,5), of b] by (simp add: js_object_simps)
qed

theorem agent_audio_before_start_witness:
  "deliver open_bridge (ElevenLabsMessage (Some audio_message_xyz)) =
     Inr (open_bridge, [TwilioSend (JObj [(''event'', JStr ''media''), (''streamSid'', JNull),
                                          (''media'', JObj [(''payload'', JStr ''xyz'')])])])"
  using agent_audio_before_start [OF not_start_opened run_opened audio_message_xyz_type
      audio_message_xyz_payload]
  by simp

section \<open>Malformed frames\<close>

text \<open>
  C7. A frame that does not decode, on either socket, is logged and dropped: the handler
  returns, the bridge is as before, and the only effect is the log entry, so neither
  socket is closed.
\<close>

theorem malformed_frame_discarded:
  "deliver b (TwilioMessage None) = Inr (b, [LogError ''Error parsing Twilio message:''])
   \<and> deliver b (ElevenLabsMessage None) = Inr (b, [LogError ''Error parsing ElevenLabs message:''])"
  by (simp add: on_twilio_message_def on_elevenLabs_message_def parse_frame_def)

section \<open>Close propagation\<close>

text \<open>
  C1 as worded fails: on a bridge whose two sockets are open, the close of the agent
  socket does not close the telephony socket.
\<close>

theorem agent_close_not_propagated: "\<not> spec_close_propagation open_bridge"
  by (simp add: spec_close_propagation_def open_bridge_def initial_bridge_def closes_telephony_def
      on_elevenLabs_close_def)

text \<open>
  C1, amended. When the telephony socket closes while the agent socket is open, the agent
  socket is closed. When the agent socket closes, the bridge only clears its connected
  flag; the telephony socket is left as it is and is not closed.
\<close>

theorem close_propagation:
  "deliver (b\<lparr> elevenLabsReady := OPEN \<rparr>) TwilioClosed =
     Inr (b\<lparr> elevenLabsReady := CLOSING, twilioReady := CLOSED \<rparr>,
          [LogInfo ''Twilio media stream disconnected'', ElevenLabsWsClose])
   \<and> deliver b ElevenLabsClosed =
     Inr (b\<lparr> isElevenLabsConnected := False, elevenLabsReady := CLOSED \<rparr>,
          [LogInfo ''ElevenLabs disconnected.''])"
  by (simp add: on_twilio_close_def on_elevenLabs_close_def)

section \<open>Unknown sessions\<close>

text \<open>
  C6. For a session id that is not in the store, the instructions endpoint replies 404
  and the media-stream upgrade closes the telephony socket; both leave the store as it is,
  and the upgrade opens no agent connection and creates no bridge.
\<close>

theorem unknown_session_fails_closed:
  assumes "sessionStore srv k = None"
  shows "call_twiml (Some k) srv =
           (Reply404 ''Session not found'', srv, [LogError ''Session not found for TwiML''])
       \<and> media_stream (Some k) srv =
           (None, srv,
            [LogInfo ''WebSocket connection attempt with sessionId'',
             LogError ''Session not found for WebSocket'', TwilioSocketClose])"
  using assms by (simp add: call_twiml_def media_stream_def)

lemma absent_session_id_fails_closed:
  "call_twiml None srv =
     (Reply404 ''Session not found'', srv, [LogError ''Session not found for TwiML''])"
  "media_stream None srv =
     (None, srv,
      [LogInfo ''WebSocket connection attempt with sessionId'',
       LogError ''Session not found for WebSocket'', TwilioSocketClose])"
  by (simp_all add: call_twiml_def media_stream_def)

lemma empty_server_unknown: "sessionStore empty_server ''s1'' = None"
  by (simp add: empty_server_def)

theorem unknown_session_fails_closed_witness:
  "call_twiml (Some ''s1'') empty_server =
     (Reply404 ''Session not found'', empty_server, [LogError ''Session not found for TwiML''])
   \<and> media_stream (Some ''s1'') empty_server =
     (None, empty_server,
      [LogInfo ''WebSocket connection attempt with sessionId'',
       LogError ''Session not found for WebSocket'', TwilioSocketClose])"
  using unknown_session_fails_closed [OF empty_server_unknown] .

lemma handleElevenLabsMessage_effects:
  assumes "handleElevenLabsMessage message sid = Inr effs"
  shows "effs = [] \<or> effs = [LogInfo ''ElevenLabs conversation initiated''] \<or> (\<exists>j. effs = [TwilioSend j])"
proof -
  obtain t where t: "get_prop (Some message) ''type'' = Inr t"
    using assms by (cases "get_prop (Some message) ''type''") (simp_all add: handleElevenLabsMessage_def)
  consider (a) "t = Some (JStr ''conversation_initiation_metadata'')"
    | (b) "t = Some (JStr ''audio'')"
    | (c) "t = Some (JStr ''ping'')"
    | (d) "t \<noteq> Some (JStr ''conversation_initiation_metadata'')" "t \<noteq> Some (JStr ''audio'')"
          "t \<noteq> Some (JStr ''ping'')"
    by blast
  then show ?thesis
  proof cases
    case a
    then show ?thesis using assms t by (simp add: handleElevenLabsMessage_def)
  next
    case b
    then show ?thesis using assms t
      by (simp add: handleElevenLabsMessage_def bind_err_Inr_iff split: if_splits) blast
  next
    case c
    then show ?thesis using assms t
      by (simp add: handleElevenLabsMessage_def bind_err_Inr_iff) blast
  next
    case d
    then show ?thesis using assms t by (simp add: handleElevenLabsMessage_def)
  qed
qed


lemma on_elevenLabs_message_effects:
  assumes "on_elevenLabs_message b frame = Inr (b', effs)"
  shows "TwilioSocketClose \<notin> set effs"
proof -
  have "(\<exists>message. frame = Some message \<and> handleElevenLabsMessage message (streamSid b) = Inr effs)
        \<or> effs = [LogError ''Error parsing ElevenLabs message:'']"
    using assms
    by (auto simp: on_elevenLabs_message_def try_catch_Inr_iff bind_err_Inr_iff parse_frame_def
        split: option.splits)
  then show ?thesis using handleElevenLabsMessage_effects by fastforce
qed

lemma on_twilio_message_effects:
  assumes "on_twilio_message b frame = Inr (b', effs)"
  shows "TwilioSocketClose \<notin> set effs"
proof (cases "\<exists>data ev. frame = Some data \<and> get_prop (Some data) ''event'' = Inr ev")
  case False
  have "effs = [LogError ''Error parsing Twilio message:'']"
  proof (cases frame)
    case None
    then show ?thesis using assms by (simp add: on_twilio_message_def parse_frame_def)
  next
    case (Some data)
    then obtain x where "get_prop (Some data) ''event'' = Inl x"
      using False by (cases "get_prop (Some data) ''event''") auto
    then show ?thesis using assms Some by (simp add: on_twilio_message_def parse_frame_def)
  qed
  then show ?thesis by simp
next
  case True
  then obtain data ev where f: "frame = Some data" "get_prop (Some data) ''event'' = Inr ev"
    by blast
  consider (a) "ev = Some (JStr ''start'')" | (b) "ev = Some (JStr ''media'')"
    | (c) "ev = Some (JStr ''stop'')"
    | (d) "ev \<noteq> Some (JStr ''start'')" "ev \<noteq> Some (JStr ''media'')" "ev \<noteq> Some (JStr ''stop'')"
    by blast
  then show ?thesis
  proof cases
    case a
    then show ?thesis using assms f
      by (auto simp: on_twilio_message_def parse_frame_def try_catch_Inr_iff bind_err_Inr_iff)
  next
    case b
    then show ?thesis using assms f
      by (auto simp: on_twilio_message_def parse_frame_def try_catch_Inr_iff bind_err_Inr_iff
          split: if_splits)
  next
    case c
    then show ?thesis using assms f
      by (auto simp: on_twilio_message_def parse_frame_def split: if_splits)
  next
    case d
    then show ?thesis using assms f
      by (auto simp: on_twilio_message_def parse_frame_def)
  qed
qed

lemma deliver_no_telephony_close:
  assumes "deliver b e = Inr (b', effs)"
  shows "TwilioSocketClose \<notin> set effs"
proof (cases e)
  case (TwilioMessage frame)
  then show ?thesis using assms on_twilio_message_effects [of b frame b' effs] by simp
next
  case (ElevenLabsMessage frame)
  then show ?thesis using assms on_elevenLabs_message_effects [of b frame b' effs] by simp
qed (use assms in \<open>auto simp: on_elevenLabs_open_def on_elevenLabs_error_def
       on_elevenLabs_close_def on_twilio_close_def split: if_splits\<close>)

lemma run_no_telephony_close:
  assumes "run b es = Inr (b', effs)"
  shows "TwilioSocketClose \<notin> set effs"
  using assms
proof (induction es arbitrary: b effs)
  case Nil
  then show ?case by simp
next
  case (Cons e es)
  from Cons.prems obtain b1 effs1 effs2
    where d: "deliver b e = Inr (b1, effs1)" and r: "run b1 es = Inr (b', effs2)"
      and e: "effs = effs1 @ effs2"
    by (rule run_Cons_Inr)
  show ?case using Cons.IH [OF r] deliver_no_telephony_close [OF d] e by simp
qed

section \<open>The callback address in the session and the URL\<close>



section \<open>Expiry\<close>

lemma run_timers_due:
  assumes "(due, k) \<in> set (timers srv)" "due \<le> t"
  shows "sessionStore (run_timers t srv) k = None"
  using assms by (force simp: run_timers_def)

lemma run_timers_None:
  "sessionStore srv k = None \<Longrightarrow> sessionStore (run_timers t srv) k = None"
  by (simp add: run_timers_def)

lemma run_timers_keeps:
  assumes "\<forall>(due, k') \<in> set (timers srv). k' = k \<longrightarrow> t < due"
  shows "sessionStore (run_timers t srv) k = sessionStore srv k"
  using assms by (auto simp: run_timers_def)

lemma run_timers_timers:
  "set (timers (run_timers t srv)) = {(due, k) \<in> set (timers srv). t < due}"
  by (auto simp: run_timers_def)

lemma handle_other:
  assumes "\<not> initiates k e"
  shows "sessionStore (handle p t srv e) k = sessionStore srv k
       \<and> set (timers srv) \<subseteq> set (timers (handle p t srv e))
       \<and> (\<forall>(due, k') \<in> set (timers (handle p t srv e)). k' = k \<longrightarrow> (due, k') \<in> set (timers srv))"
proof (cases e)
  case (InitiateCall sessionId body)
  then have ne: "sessionId \<noteq> k" using assms by simp
  show ?thesis
  proof (cases "valid_request body")
    case True
    then show ?thesis using ne InitiateCall by (auto simp: initiate_call_server)
  next
    case False
    then show ?thesis using InitiateCall by (auto simp: initiate_call_invalid)
  qed
next
  case (CallTwiml q)
  then show ?thesis by (auto simp: call_twiml_def split: option.splits)
next
  case (MediaStream q)
  then show ?thesis by (auto simp: media_stream_def split: option.splits)
qed

lemma live_until_step:
  assumes "live_until d k s srv" "t < d" "\<not> initiates k e"
  shows "live_until d k s (handle p t (run_timers t srv) e)"
proof -
  have a: "\<forall>(due, k') \<in> set (timers srv). k' = k \<longrightarrow> t < due"
    using assms(1,2) by (auto simp: live_until_def list_all_iff)
  have 1: "sessionStore (run_timers t srv) k = Some s"
    using run_timers_keeps [OF a] assms(1) by (simp add: live_until_def)
  have 2: "\<forall>(due, k') \<in> set (timers (run_timers t srv)). k' \<noteq> k \<or> d \<le> due"
    using assms(1) by (auto simp: run_timers_timers live_until_def list_all_iff)
  show ?thesis
    using handle_other [OF assms(3), of p t "run_timers t srv"] 1 2
    by (fastforce simp: live_until_def list_all_iff)
qed

lemma live_until_exec:
  assumes "live_until d k s srv" "\<forall>(t, e) \<in> set es. t < d \<and> \<not> initiates k e"
  shows "live_until d k s (exec p srv es)"
  using assms
proof (induction es arbitrary: srv)
  case Nil
  then show ?case by simp
next
  case (Cons te es)
  obtain t e where te: "te = (t, e)" by (cases te)
  have "live_until d k s (handle p t (run_timers t srv) e)"
    using live_until_step [OF Cons.prems(1)] Cons.prems(2) te by simp
  then show ?case using Cons.IH Cons.prems(2) te by simp
qed

lemma expires_by_step:
  assumes "expires_by d k srv" "\<not> initiates k e"
  shows "expires_by d k (handle p t (run_timers t srv) e)"
proof -
  have "expires_by d k (run_timers t srv)"
  proof (cases "sessionStore srv k")
    case None
    then show ?thesis by (simp add: expires_by_def run_timers_None)
  next
    case (Some s)
    then obtain due where due: "(due, k) \<in> set (timers srv)" "due \<le> d"
      using assms(1) by (auto simp: expires_by_def list_ex_iff)
    show ?thesis
    proof (cases "due \<le> t")
      case True
      then show ?thesis using run_timers_due [OF due(1)] by (simp add: expires_by_def)
    next
      case False
      then have "(due, k) \<in> set (timers (run_timers t srv))"
        using due(1) by (simp add: run_timers_timers)
      then show ?thesis using due(2) by (auto simp: expires_by_def list_ex_iff)
    qed
  qed
  then show ?thesis
    using handle_other [OF assms(2), of p t "run_timers t srv"]
    by (fastforce simp: expires_by_def list_ex_iff)
qed

lemma expires_by_exec:
  assumes "expires_by d k srv" "\<forall>(t, e) \<in> set es. \<not> initiates k e"
  shows "expires_by d k (exec p srv es)"
  using assms
proof (induction es arbitrary: srv)
  case Nil
  then show ?case by simp
next
  case (Cons te es)
  obtain t e where te: "te = (t, e)" by (cases te)
  have "expires_by d k (handle p t (run_timers t srv) e)"
    using expires_by_step [OF Cons.prems(1)] Cons.prems(2) te by simp
  then show ?case using Cons.IH Cons.prems(2) te by simp
qed

lemma expires_by_get:
  assumes "expires_by d k srv" "d \<le> t"
  shows "get_at t srv k = None"
proof (cases "sessionStore srv k")
  case None
  then show ?thesis by (simp add: get_at_def run_timers_None)
next
  case (Some s)
  then obtain due where "(due, k) \<in> set (timers srv)" "due \<le> d"
    using assms(1) by (auto simp: expires_by_def list_ex_iff)
  then show ?thesis using assms(2) run_timers_due [of due k srv t] by (simp add: get_at_def)
qed

lemma live_until_get:
  assumes "live_until d k s srv" "t < d"
  shows "get_at t srv k = Some s"
proof -
  have "\<forall>(due, k') \<in> set (timers srv). k' = k \<longrightarrow> t < due"
    using assms by (auto simp: live_until_def list_all_iff)
  from run_timers_keeps [OF this] show ?thesis
    using assms(1) by (simp add: get_at_def live_until_def)
qed

text \<open>
  C8. A session created at time T by a valid request under a fresh id, whatever requests
  follow (calls for instructions, media-stream upgrades, other sessions' creations), is
  returned by a get at T + 59 minutes when those requests came before that time, and is
  not found by a get at T + 61 minutes. Times are in milliseconds.
\<close>

theorem session_ttl:
  assumes "valid_request body"
    and "sid \<notin> snd ` set (timers srv)"
    and "\<forall>(t, e) \<in> set es. \<not> initiates sid e"
  shows "((\<forall>(t, e) \<in> set es. t \<le> T + 59 * 60 * 1000) \<longrightarrow>
            get_at (T + 59 * 60 * 1000) (exec p (handle p T srv (InitiateCall sid body)) es) sid =
              Some (new_session (normalize_serverUrl (req_serverUrl body)) body))
       \<and> get_at (T + 61 * 60 * 1000) (exec p (handle p T srv (InitiateCall sid body)) es) sid = None"
proof -
  let ?s = "new_session (normalize_serverUrl (req_serverUrl body)) body"
  let ?srv1 = "handle p T srv (InitiateCall sid body)"
  have srv1: "?srv1 = srv\<lparr> sessionStore := (sessionStore srv)(sid \<mapsto> ?s),
                           timers := timers srv @ [(T + 3600000, sid)] \<rparr>"
    using initiate_call_server [OF assms(1)] by simp
  have live: "live_until (T + 3600000) sid ?s ?srv1"
    unfolding srv1 using assms(2) by (force simp: live_until_def list_all_iff)
  have exp: "expires_by (T + 3600000) sid ?srv1"
    unfolding srv1 by (simp add: expires_by_def)
  have 1: "get_at (T + 59 * 60 * 1000) (exec p ?srv1 es) sid = Some ?s"
    if "\<forall>(t, e) \<in> set es. t \<le> T + 59 * 60 * 1000"
  proof -
    have "\<forall>(t, e) \<in> set es. t < T + 3600000 \<and> \<not> initiates sid e"
      using that assms(3) by fastforce
    from live_until_exec [OF live this] show ?thesis
      by (rule live_until_get) simp
  qed
  have 2: "get_at (T + 61 * 60 * 1000) (exec p ?srv1 es) sid = None"
    by (rule expires_by_get [OF expires_by_exec [OF exp assms(3)]]) simp
  show ?thesis using 1 2 by blast
qed

lemma example_fresh: "''s1'' \<notin> snd ` set (timers empty_server)"
  by (simp add: empty_server_def)

lemma example_events_other: "\<forall>(t, e) \<in> set example_events. \<not> initiates ''s1'' e"
  by (simp add: example_events_def)

theorem session_ttl_witness:
  "get_at (59 * 60 * 1000)
     (exec example_provider (handle example_provider 0 empty_server (InitiateCall ''s1'' example_body))
        example_events) ''s1'' =
     Some (new_session (Some ''https://bridge.example.org'') example_body)
   \<and> get_at (61 * 60 * 1000)
     (exec example_provider (handle example_provider 0 empty_server (InitiateCall ''s1'' example_body))
        example_events) ''s1'' = None"
proof -
  have early: "\<forall>(t, e) \<in> set example_events. t \<le> 0 + 59 * 60 * 1000"
    by (simp add: example_events_def)
  have url: "normalize_serverUrl (req_serverUrl example_body) = Some ''https://bridge.example.org''"
    by (simp add: example_body_def normalize_serverUrl_Some startsWith_simps)
  show ?thesis
    using session_ttl [OF example_valid example_fresh example_events_other, of 0 example_provider]
      early
    by (simp only: url add_0)
qed

end
